theory Spec2Isabelle
  imports Complex_Main "HOL-Library.Sublist"
begin

section \<open>Meeting RAG system: answer synthesis and accuracy evaluation\<close>

text \<open>
  A shallow embedding of \<^verbatim>\<open>MeetingRAGSystem.generate_answer\<close> and
  \<^verbatim>\<open>search_and_generate\<close> (phase3_rag_system.py) and of the scorers and the
  evaluation loop of \<^verbatim>\<open>AccuracyEvaluator\<close> (accuracy_evaluation.py).

  Modelling decisions:
  \<^item> Python floats are modelled as \<open>real\<close>: the arithmetic is exact, rounding is not
    modelled.
  \<^item> Python strings are \<open>string\<close> (lists of 8-bit characters). \<open>str.lower\<close>
    is modelled on the ASCII letters; other characters are left unchanged.
    \<open>len\<close> of a string is the length of that list.
  \<^item> A raised exception is the \<open>Inl\<close> branch of a sum type; \<open>str(e)\<close> is the
    message the exception carries.
  \<^item> The embedding model, the vector store and the text-generation service are external:
    the retrieval call and the generation call are parameters of the model, each returning
    either an exception or a value.
  \<^item> Wall-clock timings, console output and the telemetry calls (whose failures the code
    swallows) do not influence any returned score or the control flow and are left out.
\<close>

subsection \<open>Exceptions\<close>

datatype exc_class = ZeroDivisionError | ValueError | StatisticsError | ExternalError

datatype py_exception = Raised exc_class string

fun str_exc :: "py_exception \<Rightarrow> string" where
  "str_exc (Raised k msg) = msg"

text \<open>Python's true division \<^verbatim>\<open>a / b\<close>.\<close>

definition py_truediv :: "real \<Rightarrow> real \<Rightarrow> py_exception + real" where
  "py_truediv a b = (if b = 0 then Inl (Raised ZeroDivisionError ''division by zero'') else Inr (a / b))"

text \<open>The builtins \<^verbatim>\<open>max\<close> and \<^verbatim>\<open>min\<close> on a list: they raise on an empty one
  and keep the first extremal element otherwise.\<close>

fun py_max :: "real list \<Rightarrow> py_exception + real" where
  "py_max [] = Inl (Raised ValueError ''max() arg is an empty sequence'')"
| "py_max (x # xs) = Inr (fold (\<lambda>y m. if y > m then y else m) xs x)"

fun py_min :: "real list \<Rightarrow> py_exception + real" where
  "py_min [] = Inl (Raised ValueError ''min() arg is an empty sequence'')"
| "py_min (x # xs) = Inr (fold (\<lambda>y m. if y < m then y else m) xs x)"

text \<open>\<^verbatim>\<open>statistics.mean\<close>.\<close>

fun py_mean :: "real list \<Rightarrow> py_exception + real" where
  "py_mean [] = Inl (Raised StatisticsError ''mean requires at least one data point'')"
| "py_mean (x # xs) = Inr (sum_list (x # xs) / real (length (x # xs)))"

text \<open>\<^verbatim>\<open>try: body  except Exception as e: handler(e)\<close>.\<close>

definition try_except :: "py_exception + 'a \<Rightarrow> (py_exception \<Rightarrow> py_exception + 'a) \<Rightarrow> py_exception + 'a" where
  "try_except body handler = (case body of Inl e \<Rightarrow> handler e | Inr v \<Rightarrow> Inr v)"

subsection \<open>Strings\<close>

definition lower_char :: "char \<Rightarrow> char" where
  "lower_char c =
     (case map_of (zip ''ABCDEFGHIJKLMNOPQRSTUVWXYZ'' ''abcdefghijklmnopqrstuvwxyz'') c of
        Some d \<Rightarrow> d
      | None \<Rightarrow> c)"

definition lower :: "string \<Rightarrow> string" where
  "lower s = map lower_char s"

fun starts_with :: "string \<Rightarrow> string \<Rightarrow> bool" where
  "starts_with [] s = True"
| "starts_with (p # ps) [] = False"
| "starts_with (p # ps) (c # cs) = (if p = c then starts_with ps cs else False)"

text \<open>\<^verbatim>\<open>sub in s\<close> on strings: \<open>sub\<close> occurs in \<open>s\<close> as a contiguous piece.\<close>

fun py_in :: "string \<Rightarrow> string \<Rightarrow> bool" where
  "py_in sub [] = (sub = [])"
| "py_in sub (c # cs) = (if starts_with sub (c # cs) then True else py_in sub cs)"

text \<open>\<^verbatim>\<open>str(n)\<close> for a non-negative integer.\<close>

fun str_nat :: "nat \<Rightarrow> string" where
  "str_nat n =
     (if n < 10 then [''0123456789'' ! n]
      else str_nat (n div 10) @ [''0123456789'' ! (n mod 10)])"

text \<open>\<^verbatim>\<open>sep.join(parts)\<close>.\<close>

fun join :: "string \<Rightarrow> string list \<Rightarrow> string" where
  "join sep [] = []"
| "join sep [p] = p"
| "join sep (p # q # ps) = p @ sep @ join sep (q # ps)"

definition newline :: string where
  "newline = [CHR 0x0A]"

text \<open>How an f-string renders an optional value: \<^verbatim>\<open>None\<close> prints as its name.\<close>

fun str_opt :: "string option \<Rightarrow> string" where
  "str_opt None = ''None''"
| "str_opt (Some s) = s"

subsection \<open>Data model\<close>

text \<open>One formatted search result, as \<^verbatim>\<open>search\<close> builds it. The keys
  \<^verbatim>\<open>text\<close> and \<^verbatim>\<open>type\<close> are named \<open>chunk_text\<close> and \<open>chunk_type\<close>;
  \<^verbatim>\<open>speaker\<close> and \<^verbatim>\<open>role\<close> come from \<^verbatim>\<open>payload.get\<close> and may be
  \<^verbatim>\<open>None\<close>.\<close>

record chunk =
  score :: real
  chunk_id :: string
  meeting_id :: string
  chunk_text :: string
  chunk_type :: string
  speaker :: "string option"
  role :: "string option"

text \<open>The dictionary \<^verbatim>\<open>generate_answer\<close> returns; a key that a branch does not set
  is \<open>None\<close>.\<close>

record generated_answer =
  answer :: string
  confidence :: real
  sources_used :: nat
  retrieval_scores :: "real list option"
  error :: "string option"

record rag_result =
  rag_query :: string
  generated_answer :: generated_answer
  retrieved_chunks :: "chunk list"
  total_chunks_found :: nat

text \<open>A ground-truth entry; \<^verbatim>\<open>"expected_types" in query_data\<close> is
  \<open>expected_types qd \<noteq> None\<close>, and likewise for the other expectations.\<close>

record query_data =
  query :: string
  expected_types :: "string list option"
  expected_speakers :: "string list option"
  expected_keywords :: "string list option"
  category :: string

record relevance_metrics =
  type_accuracy :: real
  keyword_relevance :: real
  speaker_accuracy :: real
  overall_relevance :: real

record ranking_metrics =
  score_monotonicity :: real
  score_distribution :: real

record generation_metrics =
  gen_confidence :: real
  length_score :: real
  keyword_coverage :: real
  source_utilization :: real
  overall_quality :: real
  answer_length :: nat

type_synonym retriever = "string \<Rightarrow> nat \<Rightarrow> py_exception + chunk list"
type_synonym generator = "string \<Rightarrow> py_exception + string"

text \<open>Sequencing of two steps either of which may raise.\<close>

definition then_do :: "py_exception + 'a \<Rightarrow> ('a \<Rightarrow> py_exception + 'b) \<Rightarrow> py_exception + 'b" where
  "then_do m f = (case m of Inl e \<Rightarrow> Inl e | Inr v \<Rightarrow> f v)"

subsection \<open>Answer synthesis (phase3_rag_system.py)\<close>

text \<open>Truth value of \<^verbatim>\<open>chunk['speaker']\<close>: \<^verbatim>\<open>None\<close> and the empty string are
  false.\<close>

fun truthy :: "string option \<Rightarrow> bool" where
  "truthy None = False"
| "truthy (Some s) = (s \<noteq> [])"

text \<open>The lines one selected chunk adds to \<^verbatim>\<open>context_parts\<close>.\<close>

fun context_lines :: "nat \<times> chunk \<Rightarrow> string list" where
  "context_lines (i, c) =
     [''Source '' @ str_nat i @ '':'', ''Meeting: '' @ meeting_id c]
     @ (if truthy (speaker c)
        then [''Speaker: '' @ str_opt (speaker c) @ '' ('' @ str_opt (role c) @ '')'']
        else [])
     @ [''Content: '' @ chunk_text c, []]"

definition build_context :: "chunk list \<Rightarrow> string" where
  "build_context retrieved = join newline (concat (map context_lines (enumerate 1 (take 5 retrieved))))"

definition build_prompt :: "string \<Rightarrow> string \<Rightarrow> string" where
  "build_prompt q context = join newline
     [''You are an AI assistant helping analyze meeting data for an AI-insurance entrepreneur named Arjun Vasanth. Based on the retrieved meeting information below, provide a comprehensive and accurate answer to the user's question.'',
      [],
      ''Question: '' @ q,
      [],
      ''Retrieved Meeting Information:'',
      context,
      [],
      ''Instructions:'',
      ''- Provide a clear, comprehensive answer based only on the information provided'',
      ''- If multiple perspectives are mentioned, include them in your response'',
      ''- Cite specific meetings, speakers, or details when relevant'',
      ''- If the information is insufficient to fully answer the question, state what you can determine and what limitations exist'',
      ''- Be conversational but professional'',
      ''- Focus on insights that would be valuable for business decision-making'',
      [],
      ''Answer:'']"

definition generate_answer :: "generator \<Rightarrow> string \<Rightarrow> chunk list \<Rightarrow> py_exception + generated_answer" where
  "generate_answer llm q retrieved =
     (if retrieved = [] then
        Inr \<lparr>answer = ''I couldn't find any relevant information to answer your question.'',
             confidence = 0, sources_used = 0, retrieval_scores = None, error = None\<rparr>
      else
        let prompt = build_prompt q (build_context retrieved) in
        try_except
          (then_do (llm prompt) (\<lambda>generated.
           then_do (py_truediv (sum_list (map score (take 5 retrieved)))
                               (real (min (length retrieved) 5))) (\<lambda>avg_score.
           Inr \<lparr>answer = generated,
                confidence = min (avg_score * 1.2) 1,
                sources_used = length (take 5 retrieved),
                retrieval_scores = Some (map score (take 5 retrieved)),
                error = None\<rparr>)))
          (\<lambda>e.
           Inr \<lparr>answer = ''Sorry, I encountered an error generating the response: '' @ str_exc e,
                confidence = 0,
                sources_used = length retrieved,
                retrieval_scores = None,
                error = Some (str_exc e)\<rparr>))"

definition search_and_generate :: "retriever \<Rightarrow> generator \<Rightarrow> string \<Rightarrow> nat \<Rightarrow> py_exception + rag_result" where
  "search_and_generate retr llm q limit =
     then_do (retr q limit) (\<lambda>retrieved.
     then_do (generate_answer llm q retrieved) (\<lambda>llm_response.
     Inr \<lparr>rag_query = q, generated_answer = llm_response,
          retrieved_chunks = retrieved, total_chunks_found = length retrieved\<rparr>))"

subsection \<open>Relevance scorer (accuracy_evaluation.py)\<close>

text \<open>The inner keyword loop of \<^verbatim>\<open>evaluate_relevance\<close>: it stops at the first keyword
  found in the lower-cased text; the value says whether the counter was incremented.\<close>

fun keyword_loop :: "string \<Rightarrow> string list \<Rightarrow> bool" where
  "keyword_loop txt [] = False"
| "keyword_loop txt (keyword # keywords) =
     (if py_in (lower keyword) txt then True else keyword_loop txt keywords)"

definition evaluate_relevance :: "query_data \<Rightarrow> chunk list \<Rightarrow> py_exception + relevance_metrics" where
  "evaluate_relevance qd results =
     (if results = [] then
        Inr \<lparr>type_accuracy = 0, keyword_relevance = 0, speaker_accuracy = 0, overall_relevance = 0\<rparr>
      else
        then_do
          (case expected_types qd of
             Some types \<Rightarrow>
               py_truediv
                 (real (fold (\<lambda>result m. if chunk_type result \<in> set types then m + 1 else m) results (0::nat)))
                 (real (length results))
           | None \<Rightarrow> Inr 1) (\<lambda>type_acc.
        then_do
          (case expected_keywords qd of
             Some keywords \<Rightarrow>
               py_truediv
                 (real (fold (\<lambda>result m. if keyword_loop (lower (chunk_text result)) keywords then m + 1 else m)
                          results (0::nat)))
                 (real (length results))
           | None \<Rightarrow> Inr 1) (\<lambda>keyword_rel.
        then_do
          (case expected_speakers qd of
             Some speakers \<Rightarrow>
               (if results \<noteq> [] then
                  py_truediv
                    (real (fold (\<lambda>result m. if speaker result \<in> set (map Some speakers) then m + 1 else m)
                             results (0::nat)))
                    (real (length results))
                else Inr 0)
           | None \<Rightarrow> Inr 1) (\<lambda>speaker_acc.
        Inr \<lparr>type_accuracy = type_acc, keyword_relevance = keyword_rel, speaker_accuracy = speaker_acc,
             overall_relevance = type_acc * 0.3 + keyword_rel * 0.5 + speaker_acc * 0.2\<rparr>))))"

subsection \<open>Ranking scorer\<close>

definition evaluate_ranking_quality :: "chunk list \<Rightarrow> py_exception + ranking_metrics" where
  "evaluate_ranking_quality results =
     (if length results < 2 then Inr \<lparr>score_monotonicity = 1, score_distribution = 1\<rparr>
      else
        let scores = map score results;
            monotonic = list_all (\<lambda>i. scores ! i \<ge> scores ! (i + 1)) [0..<length scores - 1];
            monotonicity = (if monotonic then 1 else 0)
        in
        then_do (py_max scores) (\<lambda>mx.
        then_do (py_min scores) (\<lambda>mn.
        let score_range = mx - mn in
        then_do (if mx > 0 then then_do (py_truediv score_range mx) (\<lambda>r. Inr (min r 1)) else Inr 0)
          (\<lambda>distribution.
        Inr \<lparr>score_monotonicity = monotonicity, score_distribution = distribution\<rparr>))))"

subsection \<open>Generation scorer\<close>

definition evaluate_generation_quality :: "query_data \<Rightarrow> rag_result \<Rightarrow> py_exception + generation_metrics" where
  "evaluate_generation_quality qd rr =
     (let generated = answer (generated_answer rr);
          conf = confidence (generated_answer rr);
          used = sources_used (generated_answer rr);
          answer_len = length generated;
          len_score = (if 50 \<le> answer_len \<and> answer_len \<le> 1000 then 1
                       else max 0.3 (min (real answer_len / 500) 1))
      in
      then_do
        (case expected_keywords qd of
           Some keywords \<Rightarrow>
             (let answer_lower = lower generated;
                  keyword_matches = sum_list (map (\<lambda>keyword. (1::nat))
                                       (filter (\<lambda>keyword. py_in (lower keyword) answer_lower) keywords))
              in py_truediv (real keyword_matches) (real (length keywords)))
         | None \<Rightarrow> Inr 0) (\<lambda>coverage.
      let utilization = min (real used / 3) 1 in
      Inr \<lparr>gen_confidence = conf, length_score = len_score, keyword_coverage = coverage,
           source_utilization = utilization,
           overall_quality = conf * 0.4 + len_score * 0.2 + coverage * 0.3 + utilization * 0.1,
           answer_length = answer_len\<rparr>))"

subsection \<open>Evaluation loop\<close>

record query_result =
  qr_query :: string
  num_retrieved :: nat
  relevance :: relevance_metrics
  ranking :: ranking_metrics
  generation :: generation_metrics
  qr_confidence :: real
  top_score :: real

text \<open>The variables the loop of \<^verbatim>\<open>run_accuracy_evaluation\<close> updates. The dictionary
  \<^verbatim>\<open>results_by_category\<close> is an association list in insertion order.\<close>

record eval_state =
  results_by_category :: "(string \<times> query_result list) list"
  all_relevance_scores :: "real list"
  all_ranking_scores :: "real list"
  all_generation_scores :: "real list"

record overall_metrics =
  average_relevance :: real
  average_ranking_quality :: real
  average_generation_quality :: real
  total_queries :: nat
  categories_tested :: nat

record evaluation_results =
  overall :: overall_metrics
  by_category :: "(string \<times> query_result list) list"
  relevance_scores :: "real list"
  ranking_scores :: "real list"
  generation_scores :: "real list"

text \<open>\<^verbatim>\<open>if category not in d: d[category] = []\<close> followed by
  \<^verbatim>\<open>d[category].append(r)\<close>.\<close>

fun append_category :: "string \<Rightarrow> query_result \<Rightarrow> (string \<times> query_result list) list \<Rightarrow> (string \<times> query_result list) list" where
  "append_category c r [] = [(c, [r])]"
| "append_category c r ((k, rs) # kvs) =
     (if k = c then (k, rs @ [r]) # kvs else (k, rs) # append_category c r kvs)"

text \<open>One iteration of the loop body. There is no \<^verbatim>\<open>try\<close> around it in the source:
  an exception of any step leaves the loop.\<close>

definition eval_query :: "retriever \<Rightarrow> generator \<Rightarrow> query_data \<Rightarrow> eval_state \<Rightarrow> py_exception + eval_state" where
  "eval_query retr llm qd st =
     then_do (retr (query qd) 10) (\<lambda>retrieval_results.
     then_do (search_and_generate retr llm (query qd) 10) (\<lambda>rr.
     then_do (evaluate_relevance qd retrieval_results) (\<lambda>relevance_m.
     then_do (evaluate_ranking_quality retrieval_results) (\<lambda>ranking_m.
     then_do (evaluate_generation_quality qd rr) (\<lambda>generation_m.
     let qr = \<lparr>qr_query = query qd,
               num_retrieved = length retrieval_results,
               relevance = relevance_m,
               ranking = ranking_m,
               generation = generation_m,
               qr_confidence = confidence (generated_answer rr),
               top_score = (case retrieval_results of [] \<Rightarrow> 0 | r # _ \<Rightarrow> score r)\<rparr>
     in
     Inr \<lparr>results_by_category = append_category (category qd) qr (results_by_category st),
          all_relevance_scores = all_relevance_scores st @ [overall_relevance relevance_m],
          all_ranking_scores = all_ranking_scores st @ [score_monotonicity ranking_m],
          all_generation_scores = all_generation_scores st @ [overall_quality generation_m]\<rparr>)))))"

fun eval_loop :: "retriever \<Rightarrow> generator \<Rightarrow> query_data list \<Rightarrow> eval_state \<Rightarrow> py_exception + eval_state" where
  "eval_loop retr llm [] st = Inr st"
| "eval_loop retr llm (qd # qds) st = then_do (eval_query retr llm qd st) (eval_loop retr llm qds)"

definition initial_state :: eval_state where
  "initial_state = \<lparr>results_by_category = [], all_relevance_scores = [],
                     all_ranking_scores = [], all_generation_scores = []\<rparr>"

text \<open>\<^verbatim>\<open>run_accuracy_evaluation\<close>, with \<^verbatim>\<open>self.ground_truth_queries\<close> as the
  argument \<open>queries\<close>.\<close>

definition run_accuracy_evaluation :: "retriever \<Rightarrow> generator \<Rightarrow> query_data list \<Rightarrow> py_exception + evaluation_results" where
  "run_accuracy_evaluation retr llm queries =
     then_do (eval_loop retr llm queries initial_state) (\<lambda>st.
     then_do (py_mean (all_relevance_scores st)) (\<lambda>avg_relevance.
     then_do (py_mean (all_ranking_scores st)) (\<lambda>avg_ranking.
     then_do (py_mean (all_generation_scores st)) (\<lambda>avg_generation.
     Inr \<lparr>overall = \<lparr>average_relevance = avg_relevance,
                     average_ranking_quality = avg_ranking,
                     average_generation_quality = avg_generation,
                     total_queries = length queries,
                     categories_tested = length (results_by_category st)\<rparr>,
          by_category = results_by_category st,
          relevance_scores = all_relevance_scores st,
          ranking_scores = all_ranking_scores st,
          generation_scores = all_generation_scores st\<rparr>))))"

text \<open>The labelled queries of \<^verbatim>\<open>_create_ground_truth_dataset\<close>.\<close>

definition ground_truth_queries :: "query_data list" where
  "ground_truth_queries =
     [\<lparr>query = ''What are the key product development priorities?'',
       expected_types = Some [''minute'', ''key_insight''],
       expected_speakers = Some [''Arjun Vasanth'', ''Vikram Malhotra''],
       expected_keywords = Some [''product'', ''development'', ''priority'', ''roadmap'', ''strategy''],
       category = ''product_strategy''\<rparr>,
      \<lparr>query = ''Show me high priority action items'',
       expected_types = Some [''action_item''],
       expected_speakers = None,
       expected_keywords = Some [''high'', ''priority'', ''urgent'', ''deadline'', ''task''],
       category = ''action_items''\<rparr>,
      \<lparr>query = ''What did Arjun discuss about funding and investment?'',
       expected_types = Some [''minute''],
       expected_speakers = Some [''Arjun Vasanth''],
       expected_keywords = Some [''funding'', ''investment'', ''capital'', ''money'', ''investor''],
       category = ''funding''\<rparr>,
      \<lparr>query = ''Which meetings discussed regulatory compliance?'',
       expected_types = Some [''minute'', ''key_insight''],
       expected_speakers = None,
       expected_keywords = Some [''regulatory'', ''compliance'', ''regulation'', ''legal'', ''policy''],
       category = ''compliance''\<rparr>,
      \<lparr>query = ''What are the main concerns about market expansion?'',
       expected_types = Some [''minute'', ''key_insight''],
       expected_speakers = None,
       expected_keywords = Some [''market'', ''expansion'', ''growth'', ''scale'', ''risk''],
       category = ''market_strategy''\<rparr>,
      \<lparr>query = ''Show me insights about competitive analysis'',
       expected_types = Some [''key_insight'', ''minute''],
       expected_speakers = None,
       expected_keywords = Some [''competitive'', ''competition'', ''competitor'', ''analysis'', ''market''],
       category = ''competition''\<rparr>,
      \<lparr>query = ''What action items are assigned to technical team?'',
       expected_types = Some [''action_item''],
       expected_speakers = None,
       expected_keywords = Some [''technical'', ''tech'', ''development'', ''engineering'', ''implement''],
       category = ''technical_tasks''\<rparr>,
      \<lparr>query = ''Which meetings had discussions about AI integration?'',
       expected_types = Some [''minute'', ''key_insight''],
       expected_speakers = None,
       expected_keywords = Some [''AI'', ''artificial intelligence'', ''integration'', ''technology'', ''automation''],
       category = ''ai_technology''\<rparr>,
      \<lparr>query = ''What are the key risks identified in recent meetings?'',
       expected_types = Some [''key_insight'', ''minute''],
       expected_speakers = None,
       expected_keywords = Some [''risk'', ''concern'', ''challenge'', ''issue'', ''problem''],
       category = ''risk_management''\<rparr>,
      \<lparr>query = ''Show me decisions made about product roadmap'',
       expected_types = Some [''minute'', ''key_insight''],
       expected_speakers = None,
       expected_keywords = Some [''decision'', ''roadmap'', ''timeline'', ''milestone'', ''plan''],
       category = ''product_planning''\<rparr>]"

subsection \<open>Sample data for the worked instances\<close>

definition sample_chunk :: "real \<Rightarrow> string \<Rightarrow> chunk" where
  "sample_chunk s t =
     \<lparr>score = s, chunk_id = ''chunk_1'', meeting_id = ''meeting_001'', chunk_text = t,
      chunk_type = ''minute'', speaker = Some ''Arjun Vasanth'', role = Some ''CEO''\<rparr>"

definition sample_query :: "string list option \<Rightarrow> query_data" where
  "sample_query keywords =
     \<lparr>query = ''What are the key risks?'', expected_types = None, expected_speakers = None,
      expected_keywords = keywords, category = ''risk_management''\<rparr>"

text \<open>A generation service that always answers \<open>txt\<close>, and one that always fails.\<close>

definition constant_generator :: "string \<Rightarrow> generator" where
  "constant_generator txt prompt = Inr txt"

definition failing_generator :: "string \<Rightarrow> generator" where
  "failing_generator msg prompt = Inl (Raised ExternalError msg)"

text \<open>A store holding \<open>chunks\<close> in rank order, and one whose search fails for the query
  \<open>bad\<close>.\<close>

definition fixed_retriever :: "chunk list \<Rightarrow> retriever" where
  "fixed_retriever chunks q limit = Inr (take limit chunks)"

definition flaky_retriever :: "string \<Rightarrow> chunk list \<Rightarrow> retriever" where
  "flaky_retriever bad chunks q limit =
     (if q = bad then Inl (Raised ExternalError ''store unavailable'') else Inr (take limit chunks))"

subsection \<open>The score distribution as the specification words it\<close>

text \<open>Used only to compare the specification's wording with \<open>evaluate_ranking_quality\<close>:
  zero when the maximum score is zero, the clamped relative spread otherwise.\<close>

definition spec_score_distribution :: "real list \<Rightarrow> real" where
  "spec_score_distribution scores =
     (if Max (set scores) = 0 then 0
      else min ((Max (set scores) - Min (set scores)) / Max (set scores)) 1)"

subsection \<open>The fraction of matching results\<close>

text \<open>The share of the results that satisfy \<open>P\<close>, each result counted once: the
  specification's reading of the three accuracy sub-scores.\<close>

definition matching_fraction :: "(chunk \<Rightarrow> bool) \<Rightarrow> chunk list \<Rightarrow> real" where
  "matching_fraction P results = real (length (filter P results)) / real (length results)"

section \<open>Basic facts\<close>

lemma then_do_Inl: "then_do (Inl e) f = Inl e"
  by (simp add: then_do_def)

lemma then_do_Inr: "then_do (Inr v) f = f v"
  by (simp add: then_do_def)

lemma py_truediv_nonzero: "b \<noteq> 0 \<Longrightarrow> py_truediv a b = Inr (a / b)"
  by (simp add: py_truediv_def)

lemma py_truediv_zero: "py_truediv a 0 = Inl (Raised ZeroDivisionError ''division by zero'')"
  by (simp add: py_truediv_def)

lemma starts_with_prefix: "starts_with p s = prefix p s"
  by (induction p s rule: starts_with.induct) auto

lemma py_in_sublist: "py_in sub s = sublist sub s"
proof (induction s)
  case Nil
  then show ?case by simp
next
  case (Cons c cs)
  then show ?case
    by (simp add: starts_with_prefix sublist_Cons_right)
qed

lemma count_ones: "sum_list (map (\<lambda>k. Suc 0) xs) = length xs"
  by (induction xs) simp_all

lemma length_score_range:
  "0.3 \<le> (if 50 \<le> n \<and> n \<le> 1000 then 1 else max 0.3 (min (real n / 500) 1)) \<and>
   (if 50 \<le> n \<and> n \<le> 1000 then 1 else max 0.3 (min (real n / 500) 1)) \<le> (1::real)"
  by (simp add: max_def min_def)

section \<open>Generation scorer\<close>

lemma generation_quality_no_keywords:
  "expected_keywords qd = None \<Longrightarrow>
   evaluate_generation_quality qd rr =
     Inr \<lparr>gen_confidence = confidence (generated_answer rr),
          length_score = (if 50 \<le> length (answer (generated_answer rr)) \<and> length (answer (generated_answer rr)) \<le> 1000 then 1
                          else max 0.3 (min (real (length (answer (generated_answer rr))) / 500) 1)),
          keyword_coverage = 0,
          source_utilization = min (real (sources_used (generated_answer rr)) / 3) 1,
          overall_quality = confidence (generated_answer rr) * 0.4
             + (if 50 \<le> length (answer (generated_answer rr)) \<and> length (answer (generated_answer rr)) \<le> 1000 then 1
                          else max 0.3 (min (real (length (answer (generated_answer rr))) / 500) 1)) * 0.2
             + 0 * 0.3 + min (real (sources_used (generated_answer rr)) / 3) 1 * 0.1,
          answer_length = length (answer (generated_answer rr))\<rparr>"
  by (simp add: evaluate_generation_quality_def then_do_def Let_def)

lemma generation_quality_keywords:
  "expected_keywords qd = Some kws \<Longrightarrow> kws \<noteq> [] \<Longrightarrow>
   evaluate_generation_quality qd rr =
     Inr \<lparr>gen_confidence = confidence (generated_answer rr),
          length_score = (if 50 \<le> length (answer (generated_answer rr)) \<and> length (answer (generated_answer rr)) \<le> 1000 then 1
                          else max 0.3 (min (real (length (answer (generated_answer rr))) / 500) 1)),
          keyword_coverage = real (length (filter (\<lambda>k. sublist (lower k) (lower (answer (generated_answer rr)))) kws)) / real (length kws),
          source_utilization = min (real (sources_used (generated_answer rr)) / 3) 1,
          overall_quality = confidence (generated_answer rr) * 0.4
             + (if 50 \<le> length (answer (generated_answer rr)) \<and> length (answer (generated_answer rr)) \<le> 1000 then 1
                          else max 0.3 (min (real (length (answer (generated_answer rr))) / 500) 1)) * 0.2
             + real (length (filter (\<lambda>k. sublist (lower k) (lower (answer (generated_answer rr)))) kws)) / real (length kws) * 0.3
             + min (real (sources_used (generated_answer rr)) / 3) 1 * 0.1,
          answer_length = length (answer (generated_answer rr))\<rparr>"
  by (simp add: evaluate_generation_quality_def then_do_def Let_def py_truediv_def count_ones py_in_sublist)

text \<open>The length score the scorer returns, and its value for an answer of 49 characters.\<close>

lemma length_score_formula:
  "expected_keywords qd \<noteq> Some [] \<Longrightarrow>
   \<exists>m. evaluate_generation_quality qd rr = Inr m \<and>
       length_score m =
         (if 50 \<le> length (answer (generated_answer rr)) \<and> length (answer (generated_answer rr)) \<le> 1000
          then 1
          else max 0.3 (min (real (length (answer (generated_answer rr))) / 500) 1))"
  by (cases "expected_keywords qd") (auto simp: generation_quality_no_keywords generation_quality_keywords)

lemma length_score_short:
  "length (answer (generated_answer rr)) = 49 \<Longrightarrow> expected_keywords qd \<noteq> Some [] \<Longrightarrow>
   \<exists>m. evaluate_generation_quality qd rr = Inr m \<and> length_score m = 0.3"
  by (cases "expected_keywords qd") (auto simp: generation_quality_no_keywords generation_quality_keywords)

text \<open>
  Claim C3, at its boundary of 1001 characters: the claim asks for a \<open>length_score\<close>
  strictly below 1.0 there. The code reaches the \<^verbatim>\<open>else\<close> branch
  \<^verbatim>\<open>max(0.3, min(answer_length / 500, 1.0))\<close>, which is 1.0 for every length from 500 on,
  so an answer of 1001 characters scores 1.0.
\<close>

theorem length_score_at_1001:
  "length (answer (generated_answer rr)) = 1001 \<Longrightarrow> expected_keywords qd \<noteq> Some [] \<Longrightarrow>
   \<exists>m. evaluate_generation_quality qd rr = Inr m \<and> length_score m = 1"
  by (cases "expected_keywords qd") (auto simp: generation_quality_no_keywords generation_quality_keywords)

theorem length_score_at_1001_witness:
  "length (answer (generated_answer
      \<lparr>rag_query = ''q'',
       generated_answer = \<lparr>answer = replicate 1001 CHR ''a'', confidence = 0.5, sources_used = 2,
                            retrieval_scores = Some [0.5, 0.25], error = None\<rparr>,
       retrieved_chunks = [], total_chunks_found = 0\<rparr>)) = 1001 \<and>
   expected_keywords \<lparr>query = ''q'', expected_types = None, expected_speakers = None,
                       expected_keywords = None, category = ''c''\<rparr> \<noteq> Some [] \<and>
   (\<exists>m. evaluate_generation_quality
      \<lparr>query = ''q'', expected_types = None, expected_speakers = None,
       expected_keywords = None, category = ''c''\<rparr>
      \<lparr>rag_query = ''q'',
       generated_answer = \<lparr>answer = replicate 1001 CHR ''a'', confidence = 0.5, sources_used = 2,
                            retrieval_scores = Some [0.5, 0.25], error = None\<rparr>,
       retrieved_chunks = [], total_chunks_found = 0\<rparr> = Inr m \<and> length_score m = 1)"
  using length_score_at_1001
    [of "\<lparr>rag_query = ''q'',
       generated_answer = \<lparr>answer = replicate 1001 CHR ''a'', confidence = 0.5, sources_used = 2,
                            retrieval_scores = Some [0.5, 0.25], error = None\<rparr>,
       retrieved_chunks = [], total_chunks_found = 0\<rparr>"
       "\<lparr>query = ''q'', expected_types = None, expected_speakers = None,
       expected_keywords = None, category = ''c''\<rparr>"]
  by simp

text \<open>
  Claim C9: \<open>keyword_coverage\<close> is 0.0 when the query data has no
  \<^verbatim>\<open>expected_keywords\<close> entry; when it lists at least one keyword, the coverage is the
  number of listed keywords whose lower-cased form is a contiguous piece of the lower-cased
  answer, divided by the number of listed keywords.
\<close>

theorem keyword_coverage_spec:
  "(expected_keywords qd = None \<longrightarrow>
      (\<exists>m. evaluate_generation_quality qd rr = Inr m \<and> keyword_coverage m = 0)) \<and>
   (\<forall>kws. expected_keywords qd = Some kws \<and> kws \<noteq> [] \<longrightarrow>
      (\<exists>m. evaluate_generation_quality qd rr = Inr m \<and>
           keyword_coverage m =
             real (length (filter (\<lambda>k. sublist (lower k) (lower (answer (generated_answer rr)))) kws))
               / real (length kws)))"
  by (auto simp: generation_quality_no_keywords generation_quality_keywords)

theorem keyword_coverage_spec_witness:
  "expected_keywords \<lparr>query = ''q'', expected_types = None, expected_speakers = None,
                       expected_keywords = Some [''Risk'', ''plan''], category = ''c''\<rparr>
     = Some [''Risk'', ''plan''] \<and> [''Risk'', ''plan''] \<noteq> [] \<and>
   (\<exists>m. evaluate_generation_quality
     \<lparr>query = ''q'', expected_types = None, expected_speakers = None,
      expected_keywords = Some [''Risk'', ''plan''], category = ''c''\<rparr>
     \<lparr>rag_query = ''q'',
      generated_answer = \<lparr>answer = ''The RISK is low.'', confidence = 0.5, sources_used = 2,
                           retrieval_scores = Some [0.5, 0.25], error = None\<rparr>,
      retrieved_chunks = [], total_chunks_found = 0\<rparr> = Inr m \<and> keyword_coverage m = 1 / 2)"
  using keyword_coverage_spec
    [of "\<lparr>query = ''q'', expected_types = None, expected_speakers = None,
          expected_keywords = Some [''Risk'', ''plan''], category = ''c''\<rparr>"
        "\<lparr>rag_query = ''q'',
      generated_answer = \<lparr>answer = ''The RISK is low.'', confidence = 0.5, sources_used = 2,
                           retrieval_scores = Some [0.5, 0.25], error = None\<rparr>,
      retrieved_chunks = [], total_chunks_found = 0\<rparr>"]
  by (simp add: py_in_sublist [symmetric] lower_def lower_char_def)

text \<open>
  Claim C10: a query data entry whose \<^verbatim>\<open>expected_keywords\<close> is the empty list makes
  the generation scorer divide by the number of keywords, zero: it raises
  \<^verbatim>\<open>ZeroDivisionError\<close> and returns no score, whatever the answer.
\<close>

theorem keyword_division_by_zero:
  "expected_keywords qd = Some [] \<Longrightarrow>
   evaluate_generation_quality qd rr = Inl (Raised ZeroDivisionError ''division by zero'')"
  by (simp add: evaluate_generation_quality_def then_do_def Let_def py_truediv_def)

theorem keyword_division_by_zero_witness:
  "expected_keywords \<lparr>query = ''q'', expected_types = None, expected_speakers = None,
                       expected_keywords = Some [], category = ''c''\<rparr> = Some [] \<and>
   evaluate_generation_quality
     \<lparr>query = ''q'', expected_types = None, expected_speakers = None,
      expected_keywords = Some [], category = ''c''\<rparr>
     \<lparr>rag_query = ''q'',
      generated_answer = \<lparr>answer = ''The risk is low.'', confidence = 0.5, sources_used = 2,
                           retrieval_scores = Some [0.5, 0.25], error = None\<rparr>,
      retrieved_chunks = [], total_chunks_found = 0\<rparr>
   = Inl (Raised ZeroDivisionError ''division by zero'')"
  using keyword_division_by_zero
    [of "\<lparr>query = ''q'', expected_types = None, expected_speakers = None,
          expected_keywords = Some [], category = ''c''\<rparr>"
        "\<lparr>rag_query = ''q'',
      generated_answer = \<lparr>answer = ''The risk is low.'', confidence = 0.5, sources_used = 2,
                           retrieval_scores = Some [0.5, 0.25], error = None\<rparr>,
      retrieved_chunks = [], total_chunks_found = 0\<rparr>"]
  by simp

section \<open>Answer synthesis\<close>

lemma try_except_Inl: "try_except (Inl e) h = h e"
  by (simp add: try_except_def)





text \<open>
  Claim C8: with no retrieved chunk, \<open>generate_answer\<close> returns the fixed fallback answer,
  confidence 0.0 and zero sources, as an ordinary value; the generation service is not
  called.
\<close>

theorem empty_results_fallback:
  "generate_answer llm q [] =
     Inr \<lparr>answer = ''I couldn't find any relevant information to answer your question.'',
          confidence = 0, sources_used = 0, retrieval_scores = None, error = None\<rparr>"
  by (simp add: generate_answer_def)

text \<open>
  Claim C4: for a non-empty list of retrieved chunks, when the generation call raises,
  \<open>generate_answer\<close> returns a value, not an exception: the text names the failure, the
  confidence is 0.0, \<open>sources_used\<close> is the length of the whole retrieved list (not of its
  first five), and the \<open>error\<close> key holds the exception's message.
\<close>

theorem generation_failure_degraded:
  assumes "retrieved \<noteq> []"
    and "llm (build_prompt q (build_context retrieved)) = Inl e"
  shows "generate_answer llm q retrieved =
     Inr \<lparr>answer = ''Sorry, I encountered an error generating the response: '' @ str_exc e,
          confidence = 0,
          sources_used = length retrieved,
          retrieval_scores = None,
          error = Some (str_exc e)\<rparr>"
  using assms by (simp add: generate_answer_def Let_def then_do_Inl try_except_Inl)

theorem generation_failure_degraded_witness:
  "replicate 6 (sample_chunk 0.5 ''We discussed funding.'') \<noteq> [] \<and>
   failing_generator ''timeout''
      (build_prompt ''q'' (build_context (replicate 6 (sample_chunk 0.5 ''We discussed funding.''))))
     = (Inl (Raised ExternalError ''timeout'') :: py_exception + string) \<and>
   generate_answer (failing_generator ''timeout'') ''q''
       (replicate 6 (sample_chunk 0.5 ''We discussed funding.''))
     = Inr \<lparr>answer = ''Sorry, I encountered an error generating the response: timeout'',
            confidence = 0, sources_used = 6, retrieval_scores = None, error = Some ''timeout''\<rparr>"
  using generation_failure_degraded
    [of "replicate 6 (sample_chunk 0.5 ''We discussed funding.'')"
        "failing_generator ''timeout''" "''q''" "Raised ExternalError ''timeout''"]
  by (simp add: failing_generator_def)




section \<open>Relevance scorer\<close>

lemma fold_count:
  "fold (\<lambda>x m. if P x then m + 1 else m) xs (n::nat) = n + length (filter P xs)"
  by (induction xs arbitrary: n) simp_all

lemma keyword_loop_iff:
  "keyword_loop txt kws = (\<exists>k \<in> set kws. sublist (lower k) txt)"
  by (induction kws) (simp_all add: py_in_sublist)

lemma evaluate_relevance_empty:
  "evaluate_relevance qd [] =
     Inr \<lparr>type_accuracy = 0, keyword_relevance = 0, speaker_accuracy = 0, overall_relevance = 0\<rparr>"
  by (simp add: evaluate_relevance_def)

lemma evaluate_relevance_nonempty:
  assumes "results \<noteq> []"
  shows "evaluate_relevance qd results =
     Inr \<lparr>type_accuracy =
            (case expected_types qd of None \<Rightarrow> 1
             | Some types \<Rightarrow> matching_fraction (\<lambda>r. chunk_type r \<in> set types) results),
          keyword_relevance =
            (case expected_keywords qd of None \<Rightarrow> 1
             | Some kws \<Rightarrow>
                 matching_fraction (\<lambda>r. \<exists>k \<in> set kws. sublist (lower k) (lower (chunk_text r))) results),
          speaker_accuracy =
            (case expected_speakers qd of None \<Rightarrow> 1
             | Some speakers \<Rightarrow> matching_fraction (\<lambda>r. speaker r \<in> Some ` set speakers) results),
          overall_relevance =
            (case expected_types qd of None \<Rightarrow> 1
             | Some types \<Rightarrow> matching_fraction (\<lambda>r. chunk_type r \<in> set types) results) * 0.3
            + (case expected_keywords qd of None \<Rightarrow> 1
             | Some kws \<Rightarrow>
                 matching_fraction (\<lambda>r. \<exists>k \<in> set kws. sublist (lower k) (lower (chunk_text r))) results) * 0.5
            + (case expected_speakers qd of None \<Rightarrow> 1
             | Some speakers \<Rightarrow> matching_fraction (\<lambda>r. speaker r \<in> Some ` set speakers) results) * 0.2\<rparr>"
proof -
  from assms have len: "real (length results) \<noteq> 0" by simp
  show ?thesis
    using assms
    by (simp add: evaluate_relevance_def matching_fraction_def fold_count keyword_loop_iff
        py_truediv_nonzero [OF len] then_do_Inr split: option.split)
qed

lemma matching_fraction_range:
  "0 \<le> matching_fraction P results \<and> matching_fraction P results \<le> 1"
proof -
  have "length (filter P results) \<le> length results" by (rule length_filter_le)
  then show ?thesis
    by (cases "results = []") (simp_all add: matching_fraction_def divide_le_eq_1)
qed

lemma weighted_relevance_range:
  fixes t k s :: real
  assumes "0 \<le> t \<and> t \<le> 1" "0 \<le> k \<and> k \<le> 1" "0 \<le> s \<and> s \<le> 1"
  shows "0 \<le> t * 0.3 + k * 0.5 + s * 0.2 \<and> t * 0.3 + k * 0.5 + s * 0.2 \<le> 1"
  using assms by simp

text \<open>
  Claim C5: \<open>evaluate_relevance\<close> always returns scores. For an empty result list all four
  are 0.0. Otherwise \<open>type_accuracy\<close> is the fraction of results whose type is among the
  expected types, \<open>keyword_relevance\<close> the fraction of results whose lower-cased text
  contains the lower-cased form of at least one expected keyword (a result counts once,
  however many keywords it contains), \<open>speaker_accuracy\<close> the fraction of results whose
  speaker is among the expected speakers; each is 1.0 when its expectation is not declared;
  and \<open>overall_relevance\<close> is 0.3 * type_accuracy + 0.5 * keyword_relevance +
  0.2 * speaker_accuracy.
\<close>

theorem evaluate_relevance_spec:
  "\<exists>m. evaluate_relevance qd results = Inr m \<and>
     (results = [] \<longrightarrow>
        type_accuracy m = 0 \<and> keyword_relevance m = 0 \<and> speaker_accuracy m = 0 \<and>
        overall_relevance m = 0) \<and>
     (results \<noteq> [] \<longrightarrow>
        type_accuracy m =
          (case expected_types qd of None \<Rightarrow> 1
           | Some types \<Rightarrow> matching_fraction (\<lambda>r. chunk_type r \<in> set types) results) \<and>
        keyword_relevance m =
          (case expected_keywords qd of None \<Rightarrow> 1
           | Some kws \<Rightarrow>
               matching_fraction (\<lambda>r. \<exists>k \<in> set kws. sublist (lower k) (lower (chunk_text r))) results) \<and>
        speaker_accuracy m =
          (case expected_speakers qd of None \<Rightarrow> 1
           | Some speakers \<Rightarrow> matching_fraction (\<lambda>r. speaker r \<in> Some ` set speakers) results) \<and>
        overall_relevance m =
          0.3 * type_accuracy m + 0.5 * keyword_relevance m + 0.2 * speaker_accuracy m)"
proof (cases "results = []")
  case True
  then show ?thesis by (simp add: evaluate_relevance_empty)
next
  case False
  then show ?thesis by (simp add: evaluate_relevance_nonempty)
qed

theorem evaluate_relevance_spec_witness:
  "[sample_chunk 0.9 ''Top PRIORITY item'', sample_chunk 0.8 ''Review the budget'',
    sample_chunk 0.7 ''A priority for Q3'', sample_chunk 0.6 ''An urgent fix''] \<noteq> [] \<and>
   (\<exists>m. evaluate_relevance (ground_truth_queries ! 0)
          [sample_chunk 0.9 ''Top PRIORITY item'', sample_chunk 0.8 ''Review the budget'',
           sample_chunk 0.7 ''A priority for Q3'', sample_chunk 0.6 ''An urgent fix''] = Inr m \<and>
        type_accuracy m = 1 \<and> keyword_relevance m = 1 / 2 \<and> speaker_accuracy m = 1 \<and>
        overall_relevance m = 3 / 4)"
proof -
  let ?cs = "[sample_chunk 0.9 ''Top PRIORITY item'', sample_chunk 0.8 ''Review the budget'',
              sample_chunk 0.7 ''A priority for Q3'', sample_chunk 0.6 ''An urgent fix'']"
  let ?q = "ground_truth_queries ! 0"
  from evaluate_relevance_spec [of ?q ?cs]
  obtain m where run: "evaluate_relevance ?q ?cs = Inr m"
    and t: "type_accuracy m =
          (case expected_types ?q of None \<Rightarrow> 1
           | Some types \<Rightarrow> matching_fraction (\<lambda>r. chunk_type r \<in> set types) ?cs)"
    and k: "keyword_relevance m =
          (case expected_keywords ?q of None \<Rightarrow> 1
           | Some kws \<Rightarrow>
               matching_fraction (\<lambda>r. \<exists>k \<in> set kws. sublist (lower k) (lower (chunk_text r))) ?cs)"
    and s: "speaker_accuracy m =
          (case expected_speakers ?q of None \<Rightarrow> 1
           | Some speakers \<Rightarrow> matching_fraction (\<lambda>r. speaker r \<in> Some ` set speakers) ?cs)"
    and ov: "overall_relevance m =
          0.3 * type_accuracy m + 0.5 * keyword_relevance m + 0.2 * speaker_accuracy m"
    by auto
  have t1: "type_accuracy m = 1"
    unfolding t by (simp add: ground_truth_queries_def matching_fraction_def sample_chunk_def)
  have k1: "keyword_relevance m = 1 / 2"
    unfolding k
    by (simp add: ground_truth_queries_def matching_fraction_def sample_chunk_def
        py_in_sublist [symmetric] lower_def lower_char_def)
  have s1: "speaker_accuracy m = 1"
    unfolding s by (simp add: ground_truth_queries_def matching_fraction_def sample_chunk_def)
  have "overall_relevance m = 3 / 4"
    unfolding ov t1 k1 s1 by simp
  with run t1 k1 s1 show ?thesis by simp
qed

section \<open>Ranking scorer\<close>

lemma successively_nth:
  "successively P xs = (\<forall>i. Suc i < length xs \<longrightarrow> P (xs ! i) (xs ! Suc i))"
proof (induction P xs rule: successively.induct)
  case (1 P)
  then show ?case by simp
next
  case (2 P x)
  then show ?case by simp
next
  case (3 P x y xs)
  have "(\<forall>i. Suc i < length (x # y # xs) \<longrightarrow> P ((x # y # xs) ! i) ((x # y # xs) ! Suc i)) =
        (P x y \<and> (\<forall>i. Suc i < length (y # xs) \<longrightarrow> P ((y # xs) ! i) ((y # xs) ! Suc i)))"
    (is "?L = ?R")
  proof
    assume l: ?L
    have "P x y" using l [rule_format, of 0] by simp
    moreover have "\<forall>i. Suc i < length (y # xs) \<longrightarrow> P ((y # xs) ! i) ((y # xs) ! Suc i)"
    proof (intro allI impI)
      fix i assume "Suc i < length (y # xs)"
      then show "P ((y # xs) ! i) ((y # xs) ! Suc i)"
        using l [rule_format, of "Suc i"] by simp
    qed
    ultimately show ?R by simp
  next
    assume r: ?R
    show ?L
    proof (intro allI impI)
      fix i assume i: "Suc i < length (x # y # xs)"
      show "P ((x # y # xs) ! i) ((x # y # xs) ! Suc i)"
      proof (cases i)
        case 0
        with r show ?thesis by simp
      next
        case (Suc j)
        with i r show ?thesis by simp
      qed
    qed
  qed
  with 3 show ?case by simp
qed

lemma monotonic_check:
  "list_all (\<lambda>i. xs ! i \<ge> xs ! (i + 1)) [0..<length xs - 1] = successively (\<lambda>a b. a \<ge> b) (xs :: real list)"
proof -
  have "list_all (\<lambda>i. xs ! i \<ge> xs ! (i + 1)) [0..<length xs - 1]
        = (\<forall>i. Suc i < length xs \<longrightarrow> xs ! Suc i \<le> xs ! i)"
    by (auto simp: list_all_iff)
  then show ?thesis by (simp add: successively_nth)
qed

lemma py_max_Max: "xs \<noteq> [] \<Longrightarrow> py_max xs = Inr (Max (set xs))"
proof (cases xs)
  case Nil
  moreover assume "xs \<noteq> []"
  ultimately show ?thesis by simp
next
  case (Cons x ys)
  have "(\<lambda>y m. if m < y then y else m) = (max :: real \<Rightarrow> real \<Rightarrow> real)"
    by (intro ext) (simp add: max_def)
  moreover have "Max (set (x # ys)) = fold max ys x"
    by (rule Max.set_eq_fold)
  ultimately show ?thesis
    using Cons by (simp del: set_simps)
qed

lemma py_min_Min: "xs \<noteq> [] \<Longrightarrow> py_min xs = Inr (Min (set xs))"
proof (cases xs)
  case Nil
  moreover assume "xs \<noteq> []"
  ultimately show ?thesis by simp
next
  case (Cons x ys)
  have "(\<lambda>y m. if y < m then y else m) = (min :: real \<Rightarrow> real \<Rightarrow> real)"
    by (intro ext) (simp add: min_def)
  moreover have "Min (set (x # ys)) = fold min ys x"
    by (rule Min.set_eq_fold)
  ultimately show ?thesis
    using Cons by (simp del: set_simps)
qed

text \<open>
  Claim C6, as the code has it: \<open>evaluate_ranking_quality\<close> always returns scores. With
  fewer than two results both are 1.0. Otherwise \<open>score_monotonicity\<close> is 1.0 when every
  adjacent pair of scores is non-increasing (\<open>successively\<close>, see \<open>successively_nth\<close>)
  and 0.0 when not, and \<open>score_distribution\<close> is
  \<open>min ((max - min) / max) 1\<close> when the maximum score is positive and 0.0 when the maximum
  score is zero or negative.
\<close>

theorem evaluate_ranking_quality_spec:
  "evaluate_ranking_quality results =
     Inr (if length results < 2 then \<lparr>score_monotonicity = 1, score_distribution = 1\<rparr>
          else \<lparr>score_monotonicity =
                  (if successively (\<lambda>a b. a \<ge> b) (map score results) then 1 else 0),
                score_distribution =
                  (if Max (set (map score results)) > 0
                   then min ((Max (set (map score results)) - Min (set (map score results)))
                               / Max (set (map score results))) 1
                   else 0)\<rparr>)"
proof (cases "length results < 2")
  case True
  then show ?thesis by (simp add: evaluate_ranking_quality_def)
next
  case False
  then have ne: "map score results \<noteq> []" by auto
  show ?thesis
    using False
    by (simp add: evaluate_ranking_quality_def Let_def monotonic_check [of "map score results", simplified]
        py_max_Max [OF ne] py_min_Min [OF ne] then_do_Inr py_truediv_def del: set_map)
qed

theorem evaluate_ranking_quality_spec_witness:
  "evaluate_ranking_quality
     [sample_chunk 0.9 ''a'', sample_chunk 0.6 ''b'', sample_chunk 0.3 ''c'']
   = Inr \<lparr>score_monotonicity = 1, score_distribution = 2 / 3\<rparr>"
  using evaluate_ranking_quality_spec
    [of "[sample_chunk 0.9 ''a'', sample_chunk 0.6 ''b'', sample_chunk 0.3 ''c'']"]
  by (simp add: sample_chunk_def)

text \<open>
  The claim words the guard as "0.0 when the maximum score is 0". For the scores -1 and -2
  the maximum is not 0 and the claim's formula gives \<open>min (1 / (-1)) 1 = -1\<close>, while the
  code, whose guard is \<^verbatim>\<open>max(scores) > 0\<close>, returns 0.0.
\<close>

theorem negative_scores_distribution_counterexample:
  "evaluate_ranking_quality [sample_chunk (- 1) ''a'', sample_chunk (- 2) ''b'']
     = Inr \<lparr>score_monotonicity = 1, score_distribution = 0\<rparr> \<and>
   spec_score_distribution (map score [sample_chunk (- 1) ''a'', sample_chunk (- 2) ''b'']) = - 1"
  by (simp add: evaluate_ranking_quality_def spec_score_distribution_def sample_chunk_def
      Let_def then_do_def py_truediv_def)

section \<open>Bounds of the overall scores\<close>

lemma weighted_quality_nonneg:
  fixes c l k u :: real
  assumes "0 \<le> c" "0.3 \<le> l \<and> l \<le> 1" "0 \<le> k \<and> k \<le> 1" "0 \<le> u \<and> u \<le> 1"
  shows "0 \<le> c * 0.4 + l * 0.2 + k * 0.3 + u * 0.1"
  using assms by simp

lemma coverage_range:
  "0 \<le> real (length (filter P kws)) / real (length kws) \<and>
   real (length (filter P kws)) / real (length kws) \<le> 1"
proof -
  have "length (filter P kws) \<le> length kws" by (rule length_filter_le)
  then show ?thesis
    by (cases "kws = []") (simp_all add: divide_le_eq_1)
qed

lemma utilization_range: "0 \<le> min (real n / 3) 1 \<and> min (real n / 3) 1 \<le> (1::real)"
  by simp

lemma overall_relevance_range:
  "\<exists>m. evaluate_relevance qd results = Inr m \<and> 0 \<le> overall_relevance m \<and> overall_relevance m \<le> 1"
proof (cases "results = []")
  case True
  then show ?thesis by (simp add: evaluate_relevance_empty)
next
  case False
  have t: "0 \<le> (case expected_types qd of None \<Rightarrow> 1
             | Some types \<Rightarrow> matching_fraction (\<lambda>r. chunk_type r \<in> set types) results) \<and>
           (case expected_types qd of None \<Rightarrow> 1
             | Some types \<Rightarrow> matching_fraction (\<lambda>r. chunk_type r \<in> set types) results) \<le> 1"
    by (simp add: matching_fraction_range split: option.split)
  have k: "0 \<le> (case expected_keywords qd of None \<Rightarrow> 1
             | Some kws \<Rightarrow>
                 matching_fraction (\<lambda>r. \<exists>k \<in> set kws. sublist (lower k) (lower (chunk_text r))) results) \<and>
           (case expected_keywords qd of None \<Rightarrow> 1
             | Some kws \<Rightarrow>
                 matching_fraction (\<lambda>r. \<exists>k \<in> set kws. sublist (lower k) (lower (chunk_text r))) results) \<le> 1"
    by (simp add: matching_fraction_range split: option.split)
  have s: "0 \<le> (case expected_speakers qd of None \<Rightarrow> 1
             | Some speakers \<Rightarrow> matching_fraction (\<lambda>r. speaker r \<in> Some ` set speakers) results) \<and>
           (case expected_speakers qd of None \<Rightarrow> 1
             | Some speakers \<Rightarrow> matching_fraction (\<lambda>r. speaker r \<in> Some ` set speakers) results) \<le> 1"
    by (simp add: matching_fraction_range split: option.split)
  from weighted_relevance_range [OF t k s] show ?thesis
    by (simp only: evaluate_relevance_nonempty [OF False] sum.inject relevance_metrics.simps ex_simps simp_thms)
qed

lemma overall_quality_nonneg:
  assumes "0 \<le> confidence (generated_answer rr)"
    and "expected_keywords qd \<noteq> Some []"
  shows "\<exists>g. evaluate_generation_quality qd rr = Inr g \<and> 0 \<le> overall_quality g"
proof (cases "expected_keywords qd")
  case None
  have z: "(0::real) \<le> 0 \<and> (0::real) \<le> 1" by simp
  from weighted_quality_nonneg [OF assms(1) length_score_range z utilization_range]
  show ?thesis
    by (simp only: generation_quality_no_keywords [OF None] sum.inject generation_metrics.simps ex_simps simp_thms)
next
  case (Some kws)
  with assms(2) have ne: "kws \<noteq> []" by simp
  from weighted_quality_nonneg [OF assms(1) length_score_range coverage_range utilization_range]
  show ?thesis
    by (simp only: generation_quality_keywords [OF Some ne] sum.inject generation_metrics.simps ex_simps simp_thms)
qed

text \<open>
  Claim C7, as the code has it: \<open>overall_relevance\<close> lies in [0, 1] for every query data
  entry and every result list, the empty one included. \<open>overall_quality\<close> is returned and
  is non-negative whenever the answer's confidence is non-negative and
  \<^verbatim>\<open>expected_keywords\<close> is not the empty list. No upper bound on \<open>overall_quality\<close> is
  stated: the code adds the four weighted sub-scores in double precision, and with all four
  sub-scores at 1.0 that sum, taken in the code's order, is 1.0000000000000002. The lower
  bounds and the bounds of \<open>overall_relevance\<close> are not crossed by rounding
  (0.3 + 0.5 + 0.2 in the code's order is exactly 1.0 in double precision).
\<close>

theorem overall_scores_bounded:
  "(\<exists>m. evaluate_relevance qd results = Inr m \<and> 0 \<le> overall_relevance m \<and> overall_relevance m \<le> 1) \<and>
   (0 \<le> confidence (generated_answer rr) \<and> expected_keywords qd \<noteq> Some [] \<longrightarrow>
    (\<exists>g. evaluate_generation_quality qd rr = Inr g \<and> 0 \<le> overall_quality g))"
  using overall_relevance_range overall_quality_nonneg by blast

theorem overall_scores_bounded_witness:
  "0 \<le> confidence (generated_answer
      \<lparr>rag_query = ''q'',
       generated_answer = \<lparr>answer = ''The RISK is low.'', confidence = 0.5, sources_used = 2,
                            retrieval_scores = Some [0.5, 0.25], error = None\<rparr>,
       retrieved_chunks = [], total_chunks_found = 0\<rparr>) \<and>
   expected_keywords (sample_query (Some [''Risk'', ''plan''])) \<noteq> Some [] \<and>
   (\<exists>m. evaluate_relevance (sample_query (Some [''Risk'', ''plan''])) [] = Inr m \<and>
        0 \<le> overall_relevance m \<and> overall_relevance m \<le> 1) \<and>
   (\<exists>g. evaluate_generation_quality (sample_query (Some [''Risk'', ''plan'']))
      \<lparr>rag_query = ''q'',
       generated_answer = \<lparr>answer = ''The RISK is low.'', confidence = 0.5, sources_used = 2,
                            retrieval_scores = Some [0.5, 0.25], error = None\<rparr>,
       retrieved_chunks = [], total_chunks_found = 0\<rparr> = Inr g \<and>
        0 \<le> overall_quality g)"
  using overall_scores_bounded
    [of "sample_query (Some [''Risk'', ''plan''])" "[]"
        "\<lparr>rag_query = ''q'',
       generated_answer = \<lparr>answer = ''The RISK is low.'', confidence = 0.5, sources_used = 2,
                            retrieval_scores = Some [0.5, 0.25], error = None\<rparr>,
       retrieved_chunks = [], total_chunks_found = 0\<rparr>"]
  by (simp add: sample_query_def)

text \<open>
  Without the condition on the confidence the lower bound fails: one retrieved chunk of score -0.5
  gives the answer the confidence -0.6, and the generation scorer then returns the
  \<open>overall_quality\<close> -11/75.
\<close>

theorem negative_quality_counterexample:
  "then_do (search_and_generate (fixed_retriever [sample_chunk (- 1 / 2) ''hello'']) (constant_generator ''ok'')
              ''What are the key risks?'' 10)
           (evaluate_generation_quality (sample_query None))
     = Inr \<lparr>gen_confidence = - 3 / 5, length_score = 3 / 10, keyword_coverage = 0,
            source_utilization = 1 / 3, overall_quality = - 11 / 75, answer_length = 2\<rparr> \<and>
   \<not> (0 \<le> (- 11 / 75 :: real))"
  by (simp add: search_and_generate_def fixed_retriever_def constant_generator_def generate_answer_def
      evaluate_generation_quality_def sample_chunk_def sample_query_def
      Let_def then_do_def try_except_def py_truediv_def)

section \<open>Evaluation loop\<close>

lemma eval_loop_append:
  "eval_loop retr llm (xs @ ys) st = then_do (eval_loop retr llm xs st) (eval_loop retr llm ys)"
proof (induction xs arbitrary: st)
  case Nil
  then show ?case by (simp add: then_do_Inr)
next
  case (Cons x xs)
  then show ?case
    by (cases "eval_query retr llm x st") (simp_all add: then_do_Inl then_do_Inr)
qed

text \<open>
  Claim C2, as the code has it: the loop of \<open>run_accuracy_evaluation\<close> has no exception
  handler and keeps no error list. When the queries before \<open>qd\<close> are processed without
  an exception and processing \<open>qd\<close> raises \<open>e\<close>, the run raises \<open>e\<close>: it returns no
  report, and the queries after \<open>qd\<close> have no influence.
\<close>

theorem query_failure_propagates:
  assumes "eval_loop retr llm before initial_state = Inr st"
    and "eval_query retr llm qd st = Inl e"
  shows "run_accuracy_evaluation retr llm (before @ qd # remaining) = Inl e"
proof -
  have "eval_loop retr llm (before @ qd # remaining) initial_state = Inl e"
    using assms by (simp add: eval_loop_append then_do_Inl then_do_Inr)
  then show ?thesis
    by (simp add: run_accuracy_evaluation_def then_do_Inl)
qed

theorem query_failure_propagates_witness:
  "(\<exists>st. eval_loop (fixed_retriever []) (constant_generator ''ok'') [sample_query None] initial_state = Inr st \<and>
         eval_query (fixed_retriever []) (constant_generator ''ok'') (sample_query (Some [])) st
           = Inl (Raised ZeroDivisionError ''division by zero'')) \<and>
   run_accuracy_evaluation (fixed_retriever []) (constant_generator ''ok'')
     ([sample_query None] @ sample_query (Some []) # ground_truth_queries)
     = Inl (Raised ZeroDivisionError ''division by zero'')"
proof -
  let ?R = "fixed_retriever []"
  let ?L = "constant_generator ''ok''"
  have "\<exists>st. eval_loop ?R ?L [sample_query None] initial_state = Inr st"
    by (simp add: eval_query_def search_and_generate_def fixed_retriever_def generate_answer_def
        evaluate_relevance_def evaluate_ranking_quality_def evaluate_generation_quality_def
        sample_query_def Let_def then_do_def)
  then obtain st where first: "eval_loop ?R ?L [sample_query None] initial_state = Inr st" ..
  have second: "eval_query ?R ?L (sample_query (Some [])) st
      = Inl (Raised ZeroDivisionError ''division by zero'')"
    by (simp add: eval_query_def search_and_generate_def fixed_retriever_def generate_answer_def
        evaluate_relevance_def evaluate_ranking_quality_def evaluate_generation_quality_def
        sample_query_def Let_def then_do_def py_truediv_def)
  from query_failure_propagates [OF first second, of ground_truth_queries] first second
  show ?thesis by blast
qed

text \<open>
  The claim says that a failure of one query is caught and the run continues. On the ground
  truth queries, with a store whose search fails for the second query, the run ends with
  that exception.
\<close>

theorem harness_propagates_counterexample:
  "run_accuracy_evaluation
     (flaky_retriever ''Show me high priority action items'' [])
     (constant_generator ''ok'')
     ground_truth_queries
   = Inl (Raised ExternalError ''store unavailable'')"
  by (simp add: run_accuracy_evaluation_def ground_truth_queries_def initial_state_def
      eval_query_def search_and_generate_def flaky_retriever_def generate_answer_def
      evaluate_relevance_def evaluate_ranking_quality_def evaluate_generation_quality_def
      Let_def then_do_def py_truediv_def lower_def lower_char_def)

end
